theory Spec2Isabelle
  imports Main "HOL-Library.Sublist"
begin

section \<open>Data model (afbmq/types)\<close>

text \<open>
  Python \<^verbatim>\<open>str\<close> values are modelled as \<^typ>\<open>string\<close>, one \<^typ>\<open>char\<close> per code point;
  the model therefore covers text whose code points lie below 256.
  Exceptions are values of the type \<open>error\<close>: a raising function returns \<open>Inl e\<close>.
  \<open>Exception n\<close> stands for an instance of a class \<open>n\<close> derived from \<^verbatim>\<open>Exception\<close> that
  has no constructor of its own here, \<open>BaseException n\<close> for an instance of a class outside
  \<^verbatim>\<open>Exception\<close> (\<^verbatim>\<open>KeyboardInterrupt\<close>, \<^verbatim>\<open>SystemExit\<close>, \<^verbatim>\<open>CancelledError\<close>).
\<close>

datatype error =
    IndexError
  | ValueError
  | AttributeError
  | Exception string
  | BaseException string

fun is_Exception :: "error \<Rightarrow> bool" where
  "is_Exception (BaseException n) = False"
| "is_Exception e = True"

text \<open>\<^verbatim>\<open>types/event.py\<close>: \<^verbatim>\<open>class Sender: id: str\<close> and \<^verbatim>\<open>class Recipient: id: str\<close>.\<close>

record Sender =
  sender_id :: string

record Recipient =
  recipient_id :: string

text \<open>\<^verbatim>\<open>types/message.py\<close>: the fields of \<^verbatim>\<open>Message\<close>. Attachments are kept as their
  type names; \<^verbatim>\<open>quick_reply\<close> and \<^verbatim>\<open>reply_to\<close> as their payload and mid.\<close>

record Message =
  mid :: string
  msg_text :: string
  attachments :: "string list option"
  quick_reply :: "string option"
  reply_to :: "string option"

text \<open>\<^verbatim>\<open>class Event\<close> and \<^verbatim>\<open>class MessageEvent(Event)\<close>; the timestamp is kept as a number.\<close>

record Event =
  sender :: Sender
  recipient :: Recipient
  timestamp :: int

record MessageEvent = Event +
  message :: Message

text \<open>What \<^verbatim>\<open>isinstance(event, MessageEvent)\<close> distinguishes.\<close>

datatype any_event =
    Message_Event MessageEvent
  | Plain_Event Event

text \<open>\<^verbatim>\<open>class Entry\<close>: \<^verbatim>\<open>messaging: List[Union[None, MessageEvent]]\<close>; a slot is \<open>None\<close>
  or an event.\<close>

record Entry =
  entry_id :: string
  time :: int
  messaging :: "any_event option list"

section \<open>Dispatcher.process\_entries (afbmq/dispatcher/dispatcher.py)\<close>

text \<open>
  A coroutine is a state transformer that returns a result or an error; the state is
  whatever the awaited code acts on (the event loop, the storage).
\<close>

type_synonym ('s, 'r) coro = "'s \<Rightarrow> (error + 'r) \<times> 's"

text \<open>
  \<^verbatim>\<open>asyncio.gather(*tasks)\<close>: every task runs; the tasks are taken to complete in list
  order. The first exception is raised to the caller, otherwise the list of results is
  returned.
\<close>

fun run_all :: "('s, 'r) coro list \<Rightarrow> 's \<Rightarrow> (error + 'r) list \<times> 's" where
  "run_all [] s = ([], s)"
| "run_all (t # ts) s =
     (case t s of (r, s') \<Rightarrow> (case run_all ts s' of (rs, s'') \<Rightarrow> (r # rs, s'')))"

fun first_error :: "(error + 'r) list \<Rightarrow> error + 'r list" where
  "first_error [] = Inr []"
| "first_error (Inl e # rs) = Inl e"
| "first_error (Inr r # rs) =
     (case first_error rs of Inl e \<Rightarrow> Inl e | Inr xs \<Rightarrow> Inr (r # xs))"

definition gather :: "('s, 'r) coro list \<Rightarrow> 's \<Rightarrow> (error + 'r list) \<times> 's" where
  "gather ts s = (case run_all ts s of (rs, s') \<Rightarrow> (first_error rs, s'))"

text \<open>
  The \<^verbatim>\<open>for entry in entries\<close> loop. \<open>tasks\<close> holds, in order, the events for which
  \<^verbatim>\<open>self.events_handler.notify(event)\<close> has been appended. \<^verbatim>\<open>entry.messaging[0]\<close> raises
  \<open>IndexError\<close> on an empty list.
\<close>

fun entries_loop :: "Entry list \<Rightarrow> MessageEvent list \<Rightarrow> error + MessageEvent list" where
  "entries_loop [] tasks = Inr tasks"
| "entries_loop (entry # entries) tasks =
     (case messaging entry of
        [] \<Rightarrow> Inl IndexError
      | event # _ \<Rightarrow>
          (case event of
             Some (Message_Event ev) \<Rightarrow> entries_loop entries (tasks @ [ev])
           | _ \<Rightarrow> entries_loop entries tasks))"

text \<open>
  \<open>notify\<close> is \<^verbatim>\<open>self.events_handler.notify\<close>, a parameter: the handler chain class lives
  in \<^verbatim>\<open>dispatcher/handler.py\<close>.
\<close>

definition process_entries ::
  "(MessageEvent \<Rightarrow> ('s, 'r) coro) \<Rightarrow> Entry list \<Rightarrow> ('s, 'r list) coro" where
  "process_entries notify entries s =
     (case entries_loop entries [] of
        Inl e \<Rightarrow> (Inl e, s)
      | Inr tasks \<Rightarrow> gather (map notify tasks) s)"

text \<open>
  \<^verbatim>\<open>Dispatcher.process_event\<close> for a message event: the notification of the message
  chain with the event and its message. \<open>message_notify\<close> is
  \<^verbatim>\<open>self.message_handlers.notify\<close>, a parameter. The current recipient and sender that
  \<open>process_event\<close> sets are part of the dispatch state of the filters below.
\<close>

definition process_event ::
  "(MessageEvent \<Rightarrow> Message \<Rightarrow> ('s, 'r) coro) \<Rightarrow> MessageEvent \<Rightarrow> ('s, 'r) coro" where
  "process_event message_notify event = message_notify event (message event)"

section \<open>Python built-ins used by the filters\<close>

text \<open>\<^verbatim>\<open>str.isspace\<close> on the code points below 256: what \<^verbatim>\<open>str.split()\<close> treats as
  whitespace.\<close>

definition isspace :: "char \<Rightarrow> bool" where
  "isspace c = ((of_char c :: nat) \<in> set [9, 10, 11, 12, 13, 28, 29, 30, 31, 32, 133, 160])"

text \<open>\<^verbatim>\<open>str.lower\<close> on the code points below 256: A-Z and the upper-case letters
  192-222 (without the multiplication sign 215) move up by 32.\<close>

definition lower_char :: "char \<Rightarrow> char" where
  "lower_char c =
     (let n = (of_char c :: nat)
      in if (65 \<le> n \<and> n \<le> 90) \<or> (192 \<le> n \<and> n \<le> 222 \<and> n \<noteq> 215)
         then char_of (n + 32) else c)"

definition lower :: "string \<Rightarrow> string" where
  "lower s = map lower_char s"

text \<open>\<^verbatim>\<open>text.startswith(a)\<close>, \<^verbatim>\<open>text.endswith(a)\<close> and \<^verbatim>\<open>text.__contains__(a)\<close>.\<close>

fun str_startswith :: "string \<Rightarrow> string \<Rightarrow> bool" where
  "str_startswith t [] = True"
| "str_startswith [] (a # as) = False"
| "str_startswith (c # t) (a # as) = (c = a \<and> str_startswith t as)"

definition str_endswith :: "string \<Rightarrow> string \<Rightarrow> bool" where
  "str_endswith t a = str_startswith (rev t) (rev a)"

fun str_contains :: "string \<Rightarrow> string \<Rightarrow> bool" where
  "str_contains [] a = (a = [])"
| "str_contains (c # t) a = (str_startswith (c # t) a \<or> str_contains t a)"

text \<open>\<^verbatim>\<open>str.split()\<close> without arguments: the maximal runs of non-whitespace, in order.
  \<open>cur\<close> is the run being read.\<close>

fun split_from :: "string \<Rightarrow> string \<Rightarrow> string list" where
  "split_from [] cur = (if cur = [] then [] else [cur])"
| "split_from (c # cs) cur =
     (if isspace c then (if cur = [] then split_from cs [] else cur # split_from cs [])
      else split_from cs (cur @ [c]))"

definition split :: "string \<Rightarrow> string list" where
  "split s = split_from s []"

text \<open>\<^verbatim>\<open>s.partition('@')\<close>: the text before the first \<open>@\<close>, the separator if found, the
  text after it.\<close>

fun partition_at :: "string \<Rightarrow> string \<times> string \<times> string" where
  "partition_at [] = ([], [], [])"
| "partition_at (c # cs) =
     (if c = CHR ''@'' then ([], ''@'', cs)
      else (case partition_at cs of (before, sep, after) \<Rightarrow> (c # before, sep, after)))"

text \<open>\<^verbatim>\<open>int(x)\<close> for \<^verbatim>\<open>x: Union[int, str]\<close>. A string is stripped of whitespace, may carry
  one sign, and is a run of decimal digits in which single underscores may separate
  digits; anything else raises \<open>ValueError\<close>. The whitespace that \<^verbatim>\<open>int\<close> strips is
  narrower than that of \<^verbatim>\<open>str.split()\<close>: tab to carriage return and the space, and the
  whitespace above 127 (which \<^verbatim>\<open>int\<close> first turns into spaces); the separators 28 to 31
  are not stripped.\<close>

datatype pyval = PyInt int | PyStr string

definition isdigit :: "char \<Rightarrow> bool" where
  "isdigit c = (48 \<le> (of_char c :: nat) \<and> (of_char c :: nat) \<le> 57)"

definition digit_value :: "char \<Rightarrow> nat" where
  "digit_value c = of_char c - 48"

fun digits_tail :: "string \<Rightarrow> nat \<Rightarrow> nat option" where
  "digits_tail [] acc = Some acc"
| "digits_tail [c] acc = (if isdigit c then Some (10 * acc + digit_value c) else None)"
| "digits_tail (c # d # ds) acc =
     (if isdigit c then digits_tail (d # ds) (10 * acc + digit_value c)
      else if c = CHR ''_'' \<and> isdigit d then digits_tail ds (10 * acc + digit_value d)
      else None)"

definition int_space :: "char \<Rightarrow> bool" where
  "int_space c = ((of_char c :: nat) \<in> set [9, 10, 11, 12, 13, 32, 133, 160])"

definition strip :: "string \<Rightarrow> string" where
  "strip s = rev (dropWhile int_space (rev (dropWhile int_space s)))"

definition int_of_str :: "string \<Rightarrow> error + int" where
  "int_of_str s =
     (let t = strip s;
          neg = (case t of [] \<Rightarrow> False | c # _ \<Rightarrow> c = CHR ''-'');
          body = (case t of [] \<Rightarrow> []
                  | c # r \<Rightarrow> if c = CHR ''-'' \<or> c = CHR ''+'' then r else t)
      in case body of
           [] \<Rightarrow> Inl ValueError
         | d # ds \<Rightarrow>
             if isdigit d
             then (case digits_tail ds (digit_value d) of
                     None \<Rightarrow> Inl ValueError
                   | Some n \<Rightarrow> Inr (if neg then - int n else int n))
             else Inl ValueError)"

fun py_int :: "pyval \<Rightarrow> error + int" where
  "py_int (PyInt n) = Inr n"
| "py_int (PyStr s) = int_of_str s"

text \<open>\<^verbatim>\<open>list(map(int, xs))\<close>: the first element that does not convert raises.\<close>

fun map_int :: "pyval list \<Rightarrow> error + int list" where
  "map_int [] = Inr []"
| "map_int (x # xs) =
     (case py_int x of
        Inl e \<Rightarrow> Inl e
      | Inr n \<Rightarrow> (case map_int xs of Inl e \<Rightarrow> Inl e | Inr ns \<Rightarrow> Inr (n # ns)))"

section \<open>Filter results (afbmq/dispatcher/filters/builtin.py)\<close>

text \<open>\<^verbatim>\<open>Command.CommandObj\<close>, a dataclass: \<open>prefix\<close>, \<open>command\<close>, \<open>mention\<close> (default
  \<open>None\<close>) and \<open>args\<close> (default \<open>None\<close>).\<close>

record CommandObj =
  cmd_prefix :: string
  cmd_command :: string
  cmd_mention :: "string option"
  cmd_args :: "string option"

text \<open>The handle \<^verbatim>\<open>FSMContext(storage=self.storage, chat=chat, user=user)\<close>; the storage
  is the dispatcher's.\<close>

record FSMContext =
  chat :: "string option"
  user :: "string option"

text \<open>A check returns \<open>False\<close>, \<open>True\<close> or a dict of extra handler arguments. A regular
  expression match object is kept as the text it matched.\<close>

datatype kwarg =
    Command_arg CommandObj
  | State_arg FSMContext
  | Raw_state_arg "string option"
  | Match_arg string

datatype filter_result =
    PyBool bool
  | PyDict "(string \<times> kwarg) list"

section \<open>Text filter\<close>

text \<open>An argument that is a single string or an iterable of strings (a Text mode, the
  commands and the prefixes of Command); \<^verbatim>\<open>[e] if isinstance(e, str) else e\<close> makes it
  a list.\<close>

datatype str_arg = Str string | Strs "string list"

fun as_list :: "str_arg \<Rightarrow> string list" where
  "as_list (Str e) = [e]"
| "as_list (Strs e) = e"

record Text =
  equals :: "string list option"
  contains :: "string list option"
  startswith :: "string list option"
  endswith :: "string list option"
  ignore_case :: bool

text \<open>\<^verbatim>\<open>Text.__init__\<close>: \<open>check\<close> counts the modes that are not \<open>None\<close>.\<close>

definition Text_init ::
  "str_arg option \<Rightarrow> str_arg option \<Rightarrow> str_arg option \<Rightarrow> str_arg option \<Rightarrow> bool
   \<Rightarrow> error + Text" where
  "Text_init equals' contains' startswith' endswith' ignore_case' =
     (let check = length (filter (\<lambda>s. s \<noteq> None) [equals', contains', startswith', endswith'])
      in if check > 1 then Inl ValueError
         else if check = 0 then Inl ValueError
         else Inr \<lparr>equals = map_option as_list equals',
                   contains = map_option as_list contains',
                   startswith = map_option as_list startswith',
                   endswith = map_option as_list endswith',
                   ignore_case = ignore_case'\<rparr>)"

text \<open>\<^verbatim>\<open>Text.check\<close>: the first configured mode, in the order equals, contains,
  startswith, endswith, decides.\<close>

definition Text_check :: "Text \<Rightarrow> any_event \<Rightarrow> Message \<Rightarrow> filter_result" where
  "Text_check f event obj =
     (case event of
        Plain_Event _ \<Rightarrow> PyBool False
      | Message_Event _ \<Rightarrow>
          (let pre_process_func = (if ignore_case f then lower else (\<lambda>s. s));
               text = (if ignore_case f then lower (msg_text obj) else msg_text obj)
           in case equals f of
                Some es \<Rightarrow> PyBool (text \<in> set (map pre_process_func es))
              | None \<Rightarrow>
             (case contains f of
                Some cs \<Rightarrow> PyBool (list_all (str_contains text) (map pre_process_func cs))
              | None \<Rightarrow>
             (case startswith f of
                Some ps \<Rightarrow> PyBool (list_ex (str_startswith text) (map pre_process_func ps))
              | None \<Rightarrow>
             (case endswith f of
                Some ss \<Rightarrow> PyBool (list_ex (str_endswith text) (map pre_process_func ss))
              | None \<Rightarrow> PyBool False)))))"

section \<open>IDFilter\<close>

text \<open>An id argument is a single \<open>int\<close> or \<open>str\<close>, or an iterable of them. A \<open>str\<close> is
  itself iterable: \<^verbatim>\<open>isinstance(user_id, Iterable)\<close> holds and \<^verbatim>\<open>map(int, user_id)\<close> converts
  it character by character.\<close>

datatype id_arg = Single pyval | Iterable "pyval list"

fun truthy :: "id_arg \<Rightarrow> bool" where
  "truthy (Single (PyInt n)) = (n \<noteq> 0)"
| "truthy (Single (PyStr s)) = (s \<noteq> [])"
| "truthy (Iterable xs) = (xs \<noteq> [])"

fun id_list :: "id_arg \<Rightarrow> error + int list" where
  "id_list (Iterable xs) = map_int xs"
| "id_list (Single (PyStr s)) = map_int (map (\<lambda>c. PyStr [c]) s)"
| "id_list (Single (PyInt n)) =
     (case py_int (PyInt n) of Inl e \<Rightarrow> Inl e | Inr k \<Rightarrow> Inr [k])"

text \<open>The stored list of one argument: \<open>None\<close> unless the argument is truthy.\<close>

definition stored_ids :: "id_arg option \<Rightarrow> error + int list option" where
  "stored_ids a =
     (case a of
        None \<Rightarrow> Inr None
      | Some x \<Rightarrow>
          if truthy x
          then (case id_list x of Inl e \<Rightarrow> Inl e | Inr ns \<Rightarrow> Inr (Some ns))
          else Inr None)"

record IDFilter =
  user_id :: "int list option"
  chat_id :: "int list option"

definition IDFilter_init :: "id_arg option \<Rightarrow> id_arg option \<Rightarrow> error + IDFilter" where
  "IDFilter_init user_id' chat_id' =
     (if user_id' = None \<and> chat_id' = None then Inl ValueError
      else (case stored_ids user_id' of
              Inl e \<Rightarrow> Inl e
            | Inr u \<Rightarrow>
                (case stored_ids chat_id' of
                   Inl e \<Rightarrow> Inl e
                 | Inr c \<Rightarrow> Inr \<lparr>user_id = u, chat_id = c\<rparr>)))"

text \<open>\<^verbatim>\<open>x in xs\<close> compares with \<open>==\<close>; the event's ids are \<open>str\<close> (\<^verbatim>\<open>Sender.id: str\<close>,
  \<^verbatim>\<open>Recipient.id: str\<close>), the stored ids are \<open>int\<close>, and a \<open>str\<close> never equals an \<open>int\<close>.\<close>

definition py_in :: "pyval \<Rightarrow> int list \<Rightarrow> bool" where
  "py_in x xs = (x \<in> set (map PyInt xs))"

text \<open>\<^verbatim>\<open>IDFilter.check\<close>: a stored list is falsy when it is \<open>None\<close> or empty.\<close>

definition IDFilter_check :: "IDFilter \<Rightarrow> 'a Event_scheme \<Rightarrow> filter_result" where
  "IDFilter_check f event =
     (let uid = PyStr (sender_id (sender event));
          cid = PyStr (recipient_id (recipient event))
      in case (user_id f, chat_id f) of
           (Some us, Some cs) \<Rightarrow>
             if us \<noteq> [] \<and> cs \<noteq> [] then PyBool (py_in uid us \<and> py_in cid cs)
             else if us \<noteq> [] then PyBool (py_in uid us)
             else if cs \<noteq> [] then PyBool (py_in cid cs)
             else PyBool False
         | (Some us, None) \<Rightarrow> if us \<noteq> [] then PyBool (py_in uid us) else PyBool False
         | (None, Some cs) \<Rightarrow> if cs \<noteq> [] then PyBool (py_in cid cs) else PyBool False
         | (None, None) \<Rightarrow> PyBool False)"

section \<open>Command and CommandStart filters\<close>

text \<open>\<^verbatim>\<open>x in y\<close> for a string \<open>x\<close>: a substring test when \<open>y\<close> is a string, an element test
  when \<open>y\<close> is an iterable of strings.\<close>

fun str_in :: "string \<Rightarrow> str_arg \<Rightarrow> bool" where
  "str_in x (Str y) = str_contains y x"
| "str_in x (Strs ys) = (x \<in> set ys)"

record Command =
  commands :: "string list"
  prefixes :: str_arg
  command_ignore_case :: bool
  ignore_mention :: bool

text \<open>\<^verbatim>\<open>Command.__init__\<close>: a single command becomes a one-element tuple; with
  \<open>ignore_case\<close> the commands are stored lower-cased.\<close>

definition Command_init :: "str_arg \<Rightarrow> str_arg \<Rightarrow> bool \<Rightarrow> bool \<Rightarrow> Command" where
  "Command_init commands' prefixes' ignore_case' ignore_mention' =
     \<lparr>commands = (if ignore_case' then map lower (as_list commands') else as_list commands'),
      prefixes = prefixes',
      command_ignore_case = ignore_case',
      ignore_mention = ignore_mention'\<rparr>"

text \<open>
  \<^verbatim>\<open>Command.check_command\<close>. \<open>me_username\<close> is the value of
  \<^verbatim>\<open>(await message.fb.me).username\<close>, a parameter (the class \<open>FB\<close> of \<^verbatim>\<open>fb.py\<close> declares
  no \<open>me\<close>); it is evaluated only for a command with a mention when mentions are not
  ignored. \<^verbatim>\<open>message.text.split()[0]\<close> raises \<open>IndexError\<close> on a text of whitespace only.
  The yielded \<open>CommandObj\<close> is built from \<open>command\<close>, \<open>prefix\<close> and \<open>mention\<close>; its \<open>args\<close>
  keeps the default.
\<close>

definition check_command ::
  "error + string \<Rightarrow> Message \<Rightarrow> string list \<Rightarrow> str_arg \<Rightarrow> bool \<Rightarrow> bool
   \<Rightarrow> error + filter_result" where
  "check_command me_username message' commands' prefixes' ignore_case' ignore_mention' =
     (if msg_text message' = [] then Inr (PyBool False)
      else
        (case split (msg_text message') of
           [] \<Rightarrow> Inl IndexError
         | full_command # _ \<Rightarrow>
             (case full_command of
                [] \<Rightarrow> Inl IndexError
              | p # rest \<Rightarrow>
                  (case partition_at rest of
                     (command, _, mention) \<Rightarrow>
                       (case (if \<not> ignore_mention' \<and> mention \<noteq> []
                              then (case me_username of
                                      Inl e \<Rightarrow> Inl e
                                    | Inr name \<Rightarrow> Inr (lower name \<noteq> lower mention))
                              else Inr False) of
                          Inl e \<Rightarrow> Inl e
                        | Inr True \<Rightarrow> Inr (PyBool False)
                        | Inr False \<Rightarrow>
                            if \<not> str_in [p] prefixes' then Inr (PyBool False)
                            else if (if ignore_case' then lower command else command)
                                      \<notin> set commands'
                            then Inr (PyBool False)
                            else Inr (PyDict [(''command'', Command_arg
                                   \<lparr>cmd_prefix = [p], cmd_command = command,
                                    cmd_mention = Some mention, cmd_args = None\<rparr>)]))))))"

definition Command_check ::
  "error + string \<Rightarrow> 'a Command_scheme \<Rightarrow> MessageEvent \<Rightarrow> Message \<Rightarrow> error + filter_result" where
  "Command_check me_username f event message' =
     check_command me_username message' (commands f) (prefixes f) (command_ignore_case f)
       (ignore_mention f)"

text \<open>A compiled regular expression is given by its \<^verbatim>\<open>match\<close> method: the text matched
  at the start of the argument, or \<open>None\<close>.\<close>

datatype pattern = Pattern "string \<Rightarrow> string option"

fun re_match :: "pattern \<Rightarrow> string \<Rightarrow> string option" where
  "re_match (Pattern m) s = m s"

datatype deep_link_arg = Deep_str string | Deep_pattern pattern

record CommandStart = Command +
  deep_link :: "deep_link_arg option"

text \<open>\<^verbatim>\<open>CommandStart.__init__\<close>: \<^verbatim>\<open>super().__init__(['start'])\<close> with the default prefix
  \<open>/\<close>, \<open>ignore_case=True\<close> and \<open>ignore_mention=False\<close>.\<close>

definition CommandStart_init :: "deep_link_arg option \<Rightarrow> CommandStart" where
  "CommandStart_init deep_link' =
     \<lparr>commands = map lower [''start''], prefixes = Str ''/'', command_ignore_case = True,
      ignore_mention = False, deep_link = deep_link'\<rparr>"

text \<open>
  \<^verbatim>\<open>message.get_args()\<close>: the class \<open>Message\<close> of \<^verbatim>\<open>types/message.py\<close> declares the fields
  \<open>mid\<close>, \<open>text\<close>, \<open>attachments\<close>, \<open>quick_reply\<close>, \<open>reply_to\<close> and the method
  \<open>send_message\<close>; its base \<open>FBObject\<close> adds the property \<open>fb\<close>. Neither declares
  \<open>get_args\<close>, so the attribute lookup raises \<open>AttributeError\<close>.
\<close>

definition get_args :: "Message \<Rightarrow> error + string" where
  "get_args message' = Inl AttributeError"

text \<open>Truth value of a check result: a dict is true unless it is empty.\<close>

fun truthy_result :: "filter_result \<Rightarrow> bool" where
  "truthy_result (PyBool b) = b"
| "truthy_result (PyDict d) = (d \<noteq> [])"

definition CommandStart_check ::
  "error + string \<Rightarrow> CommandStart \<Rightarrow> MessageEvent \<Rightarrow> Message \<Rightarrow> error + filter_result" where
  "CommandStart_check me_username f event message' =
     (case Command_check me_username f event message' of
        Inl e \<Rightarrow> Inl e
      | Inr check \<Rightarrow>
          (case deep_link f of
             None \<Rightarrow> Inr check
           | Some d \<Rightarrow>
               if truthy_result check
               then (case d of
                       Deep_str text \<Rightarrow>
                         (case get_args message' of
                            Inl e \<Rightarrow> Inl e
                          | Inr a \<Rightarrow> Inr (PyBool (a = text)))
                     | Deep_pattern p \<Rightarrow>
                         (case get_args message' of
                            Inl e \<Rightarrow> Inl e
                          | Inr a \<Rightarrow>
                              (case re_match p a of
                                 Some m \<Rightarrow> Inr (PyDict [(''deep_link'', Match_arg m)])
                               | None \<Rightarrow> Inr (PyBool False))))
               else Inr check))"

section \<open>StateFilter\<close>

text \<open>An item of the \<open>state\<close> argument: a plain value (\<open>None\<close> or a string), a \<open>State\<close>
  object (given by its \<open>state\<close> attribute) or a \<open>StatesGroup\<close> class (given by its
  \<open>all_states_names\<close>). The argument is one item, or a list, set or tuple of items.\<close>

datatype state_item =
    Plain "string option"
  | State_object "string option"
  | States_group "string list"

datatype state_arg = Item state_item | Items "state_item list"

fun item_states :: "state_item \<Rightarrow> string option list" where
  "item_states (Plain v) = [v]"
| "item_states (State_object v) = [v]"
| "item_states (States_group names) = map Some names"

record StateFilter =
  states :: "string option list"

definition StateFilter_init :: "state_arg \<Rightarrow> StateFilter" where
  "StateFilter_init state =
     \<lparr>states = concat (map item_states (case state of Item i \<Rightarrow> [i] | Items l \<Rightarrow> l))\<rparr>"

text \<open>
  What one dispatch carries along: the context variable \<open>user_state\<close> (\<open>None\<close> while it
  is unset, so that \<^verbatim>\<open>ctx_state.get()\<close> raises \<open>LookupError\<close>), the current recipient and
  sender set by \<open>process_event\<close>, and the log of the \<open>get_state\<close> calls made on the
  storage, each with its \<open>(chat, user)\<close> key.
\<close>

record dispatch =
  ctx_state :: "string option option"
  current_recipient :: "Recipient option"
  current_sender :: "Sender option"
  reads :: "(string option \<times> string option) list"

text \<open>\<^verbatim>\<open>Dispatcher.current_state()\<close> without arguments: chat and user come from the
  current recipient and sender.\<close>

definition current_state :: "dispatch \<Rightarrow> FSMContext" where
  "current_state s =
     \<lparr>chat = map_option recipient_id (current_recipient s),
      user = map_option sender_id (current_sender s)\<rparr>"

definition get_target :: "'a Event_scheme \<Rightarrow> string option \<times> string option" where
  "get_target obj = (Some (recipient_id (recipient obj)), Some (sender_id (sender obj)))"

text \<open>Truth value of an id: \<open>None\<close> and the empty string are false.\<close>

fun truthy_id :: "string option \<Rightarrow> bool" where
  "truthy_id None = False"
| "truthy_id (Some i) = (i \<noteq> [])"

text \<open>
  \<^verbatim>\<open>StateFilter.check\<close>. \<open>get_state\<close> is the storage's lookup
  \<^verbatim>\<open>storage.get_state(chat=chat, user=user)\<close>, a parameter. The result comes with the
  dispatch state after the check.
\<close>

definition StateFilter_check ::
  "(string option \<Rightarrow> string option \<Rightarrow> string option) \<Rightarrow> StateFilter \<Rightarrow> 'a Event_scheme
   \<Rightarrow> dispatch \<Rightarrow> filter_result \<times> dispatch" where
  "StateFilter_check get_state f event s =
     (if Some ''*'' \<in> set (states f)
      then (PyDict [(''state'', State_arg (current_state s))], s)
      else
        (case ctx_state s of
           None \<Rightarrow>
             (case get_target event of
                (chat', user') \<Rightarrow>
                  if truthy_id chat' \<or> truthy_id user'
                  then (let state = get_state chat' user';
                            s' = s\<lparr>ctx_state := Some state,
                                   reads := reads s @ [(chat', user')]\<rparr>
                        in if state \<in> set (states f)
                           then (PyDict [(''state'', State_arg (current_state s')),
                                         (''raw_state'', Raw_state_arg state)], s')
                           else (PyBool False, s'))
                  else (PyBool False, s))
         | Some state \<Rightarrow>
             if state \<in> set (states f)
             then (PyDict [(''state'', State_arg (current_state s)),
                           (''raw_state'', Raw_state_arg state)], s)
             else (PyBool False, s)))"

text \<open>Several StateFilter checks made one after the other for the same event in the same
  dispatch, each starting from the state the previous one left.\<close>

fun check_in_turn ::
  "(string option \<Rightarrow> string option \<Rightarrow> string option) \<Rightarrow> StateFilter list \<Rightarrow> 'a Event_scheme
   \<Rightarrow> dispatch \<Rightarrow> filter_result list \<times> dispatch" where
  "check_in_turn get_state [] event s = ([], s)"
| "check_in_turn get_state (f # fs) event s =
     (case StateFilter_check get_state f event s of
        (r, s') \<Rightarrow>
          (case check_in_turn get_state fs event s' of (rs, s'') \<Rightarrow> (r # rs, s'')))"

section \<open>Dispatcher.async\_task\<close>

definition EVENT_OBJECT :: string where
  "EVENT_OBJECT = ''event_object''"

text \<open>The values a task context holds.\<close>

datatype ctx_value =
    No_value
  | Event_value MessageEvent
  | Str_value string
  | Bool_value bool
  | Request_value

text \<open>A task created by \<^verbatim>\<open>self.loop.create_task\<close> for a handler: \<open>task_result\<close> is what
  \<^verbatim>\<open>task.result()\<close> returns or raises once the task is done, \<open>task_context\<close> is the dict
  \<^verbatim>\<open>task.context\<close>, \<open>None\<close> when the task has no attribute \<open>context\<close>. A task of asyncio
  has none; neither \<^verbatim>\<open>Dispatcher.__init__\<close> nor \<^verbatim>\<open>FB.__init__\<close> installs a task factory
  that would add one.\<close>

record 'r Task =
  task_result :: "error + 'r"
  task_context :: "(string \<Rightarrow> ctx_value option) option"

text \<open>\<^verbatim>\<open>d.get(key, None)\<close>.\<close>

definition dict_get :: "(string \<Rightarrow> ctx_value option) \<Rightarrow> string \<Rightarrow> ctx_value" where
  "dict_get d key = (case d key of None \<Rightarrow> No_value | Some v \<Rightarrow> v)"

text \<open>A scheduled \<^verbatim>\<open>self.errors_handlers.notify(self, event, e)\<close>.\<close>

datatype 'd notification = Errors_notify 'd ctx_value error

text \<open>The event loop: the handler tasks created by \<open>wrapper\<close>, each with the done callback
  \<open>process_response\<close>, and the error notifications created by the callback.\<close>

record ('d, 'r) loop =
  handler_tasks :: "'r Task list"
  error_tasks :: "'d notification list"

text \<open>The done callback. \<^verbatim>\<open>except Exception\<close> does not catch an exception outside
  \<open>Exception\<close>, which leaves the callback. In the handler of the exception the arguments
  of \<^verbatim>\<open>self.errors_handlers.notify\<close> are evaluated first: on a task without the attribute
  \<open>context\<close>, \<^verbatim>\<open>task.context\<close> raises \<open>AttributeError\<close>, which leaves the callback before any
  notification is created.\<close>

definition process_response ::
  "'d \<Rightarrow> 'r Task \<Rightarrow> ('d, 'r) loop \<Rightarrow> (error + unit) \<times> ('d, 'r) loop" where
  "process_response self task l =
     (case task_result task of
        Inr _ \<Rightarrow> (Inr (), l)
      | Inl e \<Rightarrow>
          if is_Exception e
          then (case task_context task of
                  None \<Rightarrow> (Inl AttributeError, l)
                | Some d \<Rightarrow>
                    (Inr (), l\<lparr>error_tasks := error_tasks l @
                       [Errors_notify self (dict_get d EVENT_OBJECT) e]\<rparr>))
          else (Inl e, l))"

text \<open>
  \<open>wrapper\<close>: creates the task of \<^verbatim>\<open>func(*args, **kwargs)\<close> and returns \<open>None\<close>. \<open>func\<close>
  gives the outcome of the handler on its arguments; \<open>ctx\<close> is the attribute \<open>context\<close>
  that the loop gives the new task, a parameter: \<open>None\<close> on a loop that gives none.
\<close>

definition wrapper ::
  "('a \<Rightarrow> error + 'r) \<Rightarrow> (string \<Rightarrow> ctx_value option) option \<Rightarrow> 'a \<Rightarrow> ('d, 'r) loop
   \<Rightarrow> (error + unit) \<times> ('d, 'r) loop" where
  "wrapper func ctx args l =
     (Inr (), l\<lparr>handler_tasks := handler_tasks l @
                  [\<lparr>task_result = func args, task_context = ctx\<rparr>]\<rparr>)"

text \<open>The context state that \<^verbatim>\<open>WebhookRequestHandler.post\<close> sets with
  \<^verbatim>\<open>context.update_state\<close> before it schedules \<open>process_entries\<close>
  (\<^verbatim>\<open>dispatcher/webhook.py\<close>): the caller, the connection flag and the request.\<close>

definition webhook_context :: "string \<Rightarrow> ctx_value option" where
  "webhook_context =
     [''CALLER'' \<mapsto> Str_value ''webhook'',
      ''WEBHOOK_CONNECTION'' \<mapsto> Bool_value True,
      ''WEBHOOK_REQUEST'' \<mapsto> Request_value]"

text \<open>The loop runs the done callbacks of the finished handler tasks in order; an
  exception that leaves a callback is handed to the loop's exception handler.\<close>

fun run_callbacks :: "'d \<Rightarrow> 'r Task list \<Rightarrow> ('d, 'r) loop \<Rightarrow> ('d, 'r) loop" where
  "run_callbacks self [] l = l"
| "run_callbacks self (task # tasks) l =
     run_callbacks self tasks (snd (process_response self task l))"

section \<open>Sample data\<close>

definition sample_message :: "string \<Rightarrow> Message" where
  "sample_message t =
     \<lparr>mid = ''m1'', msg_text = t, attachments = None, quick_reply = None, reply_to = None\<rparr>"

definition sample_event :: "string \<Rightarrow> string \<Rightarrow> string \<Rightarrow> MessageEvent" where
  "sample_event s r t =
     \<lparr>sender = \<lparr>sender_id = s\<rparr>, recipient = \<lparr>recipient_id = r\<rparr>, timestamp = 0,
      message = sample_message t\<rparr>"

definition sample_entry :: "any_event option list \<Rightarrow> Entry" where
  "sample_entry slots = \<lparr>entry_id = ''e1'', time = 0, messaging = slots\<rparr>"

definition sample_dispatch :: "string option option \<Rightarrow> dispatch" where
  "sample_dispatch c =
     \<lparr>ctx_state = c, current_recipient = Some \<lparr>recipient_id = ''p1''\<rparr>,
      current_sender = Some \<lparr>sender_id = ''u1''\<rparr>, reads = []\<rparr>"

definition empty_loop :: "(string, unit) loop" where
  "empty_loop = \<lparr>handler_tasks = [], error_tasks = []\<rparr>"

section \<open>Properties of process\_entries\<close>

text \<open>The events the loop keeps when every entry has a first slot: the first slots that
  are message events, in order, after the ones already collected.\<close>

lemma entries_loop_first_slots:
  "\<forall>entry \<in> set entries. messaging entry \<noteq> [] \<Longrightarrow>
   entries_loop entries tasks =
     Inr (tasks @ concat (map (\<lambda>entry. case messaging entry of
                                 Some (Message_Event ev) # _ \<Rightarrow> [ev] | _ \<Rightarrow> []) entries))"
proof (induction entries arbitrary: tasks)
  case Nil
  show ?case by simp
next
  case (Cons entry entries)
  from Cons.prems obtain slot rest where m: "messaging entry = slot # rest"
    by (cases "messaging entry") auto
  from Cons.prems have rest_ok: "\<forall>entry \<in> set entries. messaging entry \<noteq> []"
    by simp
  show ?case
  proof (cases slot)
    case None
    with m Cons.IH [OF rest_ok] show ?thesis by simp
  next
    case (Some event)
    with m Cons.IH [OF rest_ok] show ?thesis by (cases event) simp_all
  qed
qed

lemma entries_loop_empty_messaging:
  "\<exists>entry \<in> set entries. messaging entry = [] \<Longrightarrow> entries_loop entries tasks = Inl IndexError"
proof (induction entries arbitrary: tasks)
  case Nil
  then show ?case by simp
next
  case (Cons entry entries)
  show ?case
  proof (cases "messaging entry")
    case Nil
    then show ?thesis by simp
  next
    case (Cons slot rest)
    with Cons.prems have "\<exists>entry \<in> set entries. messaging entry = []" by auto
    from Cons.IH [OF this] Cons show ?thesis
      by (simp split: option.splits any_event.splits)
  qed
qed

text \<open>
  Claim C3, as amended. For entries that each have a first messaging slot,
  \<open>process_entries\<close> awaits exactly the notifications of the first slots that are message
  events, in entry order: an entry whose first slot is \<open>None\<close> or a non-message event
  contributes no notification, and the slots after the first never matter.
\<close>

theorem process_entries_first_slot_only:
  assumes "\<forall>entry \<in> set entries. messaging entry \<noteq> []"
  shows "process_entries notify entries s =
           gather (map notify (concat (map (\<lambda>entry. case messaging entry of
                      Some (Message_Event ev) # _ \<Rightarrow> [ev] | _ \<Rightarrow> []) entries))) s"
  using entries_loop_first_slots [OF assms, of "[]"]
  by (simp add: process_entries_def)

theorem process_entries_first_slot_only_witness:
  "process_entries (\<lambda>ev s. (Inr (msg_text (message ev)), s))
     [sample_entry [None, Some (Message_Event (sample_event ''u1'' ''p1'' ''late''))],
      sample_entry [Some (Message_Event (sample_event ''u1'' ''p1'' ''hello'')), None],
      sample_entry [Some (Plain_Event \<lparr>sender = \<lparr>sender_id = ''u1''\<rparr>,
                       recipient = \<lparr>recipient_id = ''p1''\<rparr>, timestamp = 0\<rparr>)]] (0::nat)
   = (Inr [''hello''], 0)"
proof -
  let ?entries =
    "[sample_entry [None, Some (Message_Event (sample_event ''u1'' ''p1'' ''late''))],
      sample_entry [Some (Message_Event (sample_event ''u1'' ''p1'' ''hello'')), None],
      sample_entry [Some (Plain_Event \<lparr>sender = \<lparr>sender_id = ''u1''\<rparr>,
                       recipient = \<lparr>recipient_id = ''p1''\<rparr>, timestamp = 0\<rparr>)]]"
  have h: "\<forall>entry \<in> set ?entries. messaging entry \<noteq> []"
    by (simp add: sample_entry_def)
  show ?thesis
    using process_entries_first_slot_only
      [OF h, where notify = "\<lambda>ev s. (Inr (msg_text (message ev)), s)" and s = "0::nat"]
    by (simp add: sample_entry_def sample_event_def sample_message_def gather_def)
qed

text \<open>
  The claim as stated, for every list of entries, fails: in a batch whose last entry has
  no messaging slot, the first slots of the other entries are message events and yet
  none of them is dispatched; the call raises \<open>IndexError\<close> and the state is untouched.
\<close>

theorem process_entries_first_slot_counterexample:
  "process_entries (\<lambda>ev s. (Inr (msg_text (message ev)), msg_text (message ev) # s))
     [sample_entry [Some (Message_Event (sample_event ''u1'' ''p1'' ''first''))],
      sample_entry [Some (Message_Event (sample_event ''u2'' ''p1'' ''second'')), None],
      sample_entry []] []
   = (Inl IndexError, [])"
  by (simp add: process_entries_def sample_entry_def)

text \<open>
  Claim C10. A batch that contains an entry with an empty messaging list raises
  \<open>IndexError\<close>: the first slot is indexed before any type check, and no notification of
  the batch is awaited (the state is untouched).
\<close>

theorem process_entries_empty_messaging_raises:
  assumes "\<exists>entry \<in> set entries. messaging entry = []"
  shows "process_entries notify entries s = (Inl IndexError, s)"
  using entries_loop_empty_messaging [OF assms, of "[]"]
  by (simp add: process_entries_def)

theorem process_entries_empty_messaging_raises_witness:
  "process_entries (\<lambda>ev s. (Inr (msg_text (message ev)), Suc s))
     [sample_entry [Some (Message_Event (sample_event ''u1'' ''p1'' ''hello''))],
      sample_entry []] (0::nat)
   = (Inl IndexError, 0)"
proof -
  let ?entries =
    "[sample_entry [Some (Message_Event (sample_event ''u1'' ''p1'' ''hello''))],
      sample_entry []]"
  have h: "\<exists>entry \<in> set ?entries. messaging entry = []"
    by (simp add: sample_entry_def)
  show ?thesis
    using process_entries_empty_messaging_raises
      [OF h, where notify = "\<lambda>ev s. (Inr (msg_text (message ev)), Suc s)" and s = "0::nat"]
    by simp
qed

section \<open>Properties of the string operations\<close>

lemma str_startswith_prefix: "str_startswith t a = prefix a t"
  by (induction t a rule: str_startswith.induct) auto

lemma str_endswith_suffix: "str_endswith t a = suffix a t"
  by (simp add: str_endswith_def str_startswith_prefix suffix_to_prefix)

lemma str_contains_sublist: "str_contains t a = sublist a t"
  by (induction t) (auto simp: str_startswith_prefix sublist_Cons_right)

section \<open>Properties of the Text filter and of IDFilter\<close>

lemma Text_init_Inr:
  assumes "Text_init e c s w ic = Inr f"
  shows "f = \<lparr>equals = map_option as_list e, contains = map_option as_list c,
               startswith = map_option as_list s, endswith = map_option as_list w,
               ignore_case = ic\<rparr>"
    and "length (filter (\<lambda>a. a \<noteq> None) [e, c, s, w]) = 1"
  using assms by (auto simp: Text_init_def Let_def split: if_splits)

text \<open>
  Claim C8. Construction fails with \<open>ValueError\<close> when two (or more) of the four Text modes
  are given, when none is given, and when IDFilter gets neither \<open>user_id\<close> nor \<open>chat_id\<close>.
\<close>

theorem invalid_filter_arguments_raise:
  "(((e \<noteq> None \<and> c \<noteq> None) \<or> (e \<noteq> None \<and> s \<noteq> None) \<or> (e \<noteq> None \<and> w \<noteq> None) \<or>
     (c \<noteq> None \<and> s \<noteq> None) \<or> (c \<noteq> None \<and> w \<noteq> None) \<or> (s \<noteq> None \<and> w \<noteq> None))
      \<longrightarrow> Text_init e c s w ic = Inl ValueError)
   \<and> Text_init None None None None ic = Inl ValueError
   \<and> IDFilter_init None None = Inl ValueError"
  by (auto simp: Text_init_def IDFilter_init_def Let_def)

theorem invalid_filter_arguments_raise_witness:
  "Text_init None (Some (Str ''a'')) None (Some (Strs [''b'', ''c''])) False = Inl ValueError
   \<and> Text_init None None None None False = Inl ValueError
   \<and> IDFilter_init None None = Inl ValueError"
  using invalid_filter_arguments_raise
    [of None "Some (Str ''a'')" None "Some (Strs [''b'', ''c''])" False]
  by simp

text \<open>
  Claim C9, as amended. For a Text filter built by the constructor and a message event
  with text \<open>t\<close>: in contains mode the filter accepts iff every configured string occurs
  in \<open>t\<close>, in startswith mode iff \<open>t\<close> starts with some configured string, in endswith mode
  iff \<open>t\<close> ends with some configured string; when \<open>ignore_case\<close> is set, \<open>t\<close> and the
  configured strings are lower-cased before they are compared.
\<close>

theorem Text_check_all_any:
  assumes "Text_init e c s w ic = Inr f"
  shows "(c = Some a \<longrightarrow>
            Text_check f (Message_Event ev) m =
              PyBool (\<forall>x \<in> set (as_list a).
                 sublist (if ic then lower x else x)
                         (if ic then lower (msg_text m) else msg_text m)))
       \<and> (s = Some a \<longrightarrow>
            Text_check f (Message_Event ev) m =
              PyBool (\<exists>x \<in> set (as_list a).
                 prefix (if ic then lower x else x)
                        (if ic then lower (msg_text m) else msg_text m)))
       \<and> (w = Some a \<longrightarrow>
            Text_check f (Message_Event ev) m =
              PyBool (\<exists>x \<in> set (as_list a).
                 suffix (if ic then lower x else x)
                        (if ic then lower (msg_text m) else msg_text m)))"
proof -
  note f = Text_init_Inr(1) [OF assms]
  note one = Text_init_Inr(2) [OF assms]
  have contains_mode: "e = None" if "c = Some a"
    using one that by (cases e) auto
  have startswith_mode: "e = None \<and> c = None" if "s = Some a"
    using one that by (cases e; cases c) auto
  have endswith_mode: "e = None \<and> c = None \<and> s = None" if "w = Some a"
    using one that by (cases e; cases c; cases s) auto
  show ?thesis
  proof (intro conjI impI)
    assume "c = Some a"
    with contains_mode f show
      "Text_check f (Message_Event ev) m =
         PyBool (\<forall>x \<in> set (as_list a).
            sublist (if ic then lower x else x)
                    (if ic then lower (msg_text m) else msg_text m))"
      by (simp add: Text_check_def list_all_iff str_contains_sublist)
  next
    assume "s = Some a"
    with startswith_mode f show
      "Text_check f (Message_Event ev) m =
         PyBool (\<exists>x \<in> set (as_list a).
            prefix (if ic then lower x else x)
                   (if ic then lower (msg_text m) else msg_text m))"
      by (simp add: Text_check_def list_ex_iff str_startswith_prefix)
  next
    assume "w = Some a"
    with endswith_mode f show
      "Text_check f (Message_Event ev) m =
         PyBool (\<exists>x \<in> set (as_list a).
            suffix (if ic then lower x else x)
                   (if ic then lower (msg_text m) else msg_text m))"
      by (simp add: Text_check_def list_ex_iff str_endswith_suffix)
  qed
qed

theorem Text_check_all_any_witness:
  "Text_check \<lparr>equals = None, contains = Some [''a'', ''b''], startswith = None,
               endswith = None, ignore_case = False\<rparr>
     (Message_Event (sample_event ''u1'' ''p1'' ''xaybz'')) (sample_message ''xaybz'')
     = PyBool True
   \<and> Text_check \<lparr>equals = None, contains = Some [''a'', ''b''], startswith = None,
                 endswith = None, ignore_case = False\<rparr>
     (Message_Event (sample_event ''u1'' ''p1'' ''xayz'')) (sample_message ''xayz'')
     = PyBool False"
proof -
  let ?f = "\<lparr>equals = None, contains = Some [''a'', ''b''], startswith = None,
             endswith = None, ignore_case = False\<rparr>"
  have h: "Text_init None (Some (Strs [''a'', ''b''])) None None False = Inr ?f"
    by (simp add: Text_init_def)
  have yes: "sublist ''a'' ''xaybz'' \<and> sublist ''b'' ''xaybz''"
    by (simp add: str_contains_sublist [symmetric])
  have no: "\<not> sublist ''b'' ''xayz''"
    by (simp add: str_contains_sublist [symmetric])
  show ?thesis
    using Text_check_all_any [OF h, of "Strs [''a'', ''b'']" "sample_event ''u1'' ''p1'' ''xaybz''"
        "sample_message ''xaybz''"]
      Text_check_all_any [OF h, of "Strs [''a'', ''b'']" "sample_event ''u1'' ''p1'' ''xayz''"
        "sample_message ''xayz''"] yes no
    by (simp add: sample_message_def)
qed

text \<open>
  The claim as stated, without the case folding, fails: with \<open>ignore_case\<close> set,
  \<open>Text(contains=['A'], ignore_case=True)\<close> accepts the text \<open>a\<close>, in which \<open>A\<close> does not
  occur.
\<close>

theorem Text_contains_ignore_case_counterexample:
  "Text_init None (Some (Strs [''A''])) None None True =
     Inr \<lparr>equals = None, contains = Some [''A''], startswith = None, endswith = None,
          ignore_case = True\<rparr>
   \<and> Text_check \<lparr>equals = None, contains = Some [''A''], startswith = None, endswith = None,
                 ignore_case = True\<rparr>
       (Message_Event (sample_event ''u1'' ''p1'' ''a'')) (sample_message ''a'') = PyBool True
   \<and> \<not> sublist ''A'' ''a''"
proof -
  have l: "lower ''A'' = ''a'' \<and> lower ''a'' = ''a''"
    by code_simp
  have "\<not> sublist ''A'' ''a''"
    by (simp add: str_contains_sublist [symmetric])
  then show ?thesis
    by (simp add: Text_init_def Text_check_def sample_message_def l)
qed

text \<open>The stored ids are integers and the ids of an event are strings, so no membership
  test of \<open>IDFilter.check\<close> ever succeeds.\<close>

lemma py_in_str: "py_in (PyStr x) xs = False"
  by (auto simp: py_in_def)

lemma IDFilter_check_never_accepts: "IDFilter_check f event = PyBool False"
  by (simp add: IDFilter_check_def Let_def py_in_str split: option.splits)

text \<open>
  Claim C7 at a failing input: \<open>IDFilter(user_id=[123])\<close> checked on an event whose sender
  id is \<open>'123'\<close> rejects, because \<open>'123' in [123]\<close> is false.
\<close>

theorem IDFilter_rejects_listed_sender:
  "IDFilter_init (Some (Iterable [PyInt 123])) None = Inr \<lparr>user_id = Some [123], chat_id = None\<rparr>
   \<and> IDFilter_check \<lparr>user_id = Some [123], chat_id = None\<rparr>
       (sample_event ''123'' ''p1'' ''hi'') = PyBool False"
  by (simp add: IDFilter_init_def stored_ids_def IDFilter_check_def py_in_def sample_event_def)

section \<open>Properties of the Command filters\<close>

text \<open>The first token of \<open>split\<close>: a run of non-whitespace that is followed by whitespace
  or by the end of the text.\<close>

lemma split_from_token:
  assumes "\<forall>c \<in> set xs. \<not> isspace c" and "rest = [] \<or> isspace (hd rest)" and "cur @ xs \<noteq> []"
  shows "\<exists>ts. split_from (xs @ rest) cur = (cur @ xs) # ts"
  using assms
proof (induction xs arbitrary: cur)
  case Nil
  then show ?case by (cases rest) auto
next
  case (Cons x xs)
  from Cons.prems have "\<exists>ts. split_from (xs @ rest) (cur @ [x]) = ((cur @ [x]) @ xs) # ts"
    by (intro Cons.IH) auto
  with Cons.prems show ?case by simp
qed

lemma partition_at_no_at: "CHR ''@'' \<notin> set xs \<Longrightarrow> partition_at xs = (xs, [], [])"
  by (induction xs) auto

lemma check_command_token:
  assumes "\<not> isspace p" and "\<forall>c \<in> set cmd. \<not> isspace c \<and> c \<noteq> CHR ''@''"
    and "rest = [] \<or> isspace (hd rest)"
  shows "check_command me (m\<lparr>msg_text := p # cmd @ rest\<rparr>) cs ps ic im =
           (if str_in [p] ps \<and> (if ic then lower cmd else cmd) \<in> set cs
            then Inr (PyDict [(''command'', Command_arg
                   \<lparr>cmd_prefix = [p], cmd_command = cmd, cmd_mention = Some [], cmd_args = None\<rparr>)])
            else Inr (PyBool False))"
proof -
  from assms have "\<exists>ts. split_from ((p # cmd) @ rest) [] = ([] @ (p # cmd)) # ts"
    by (intro split_from_token) auto
  then obtain ts where sp: "split (p # cmd @ rest) = (p # cmd) # ts"
    by (auto simp: split_def)
  from assms have pa: "partition_at cmd = (cmd, [], [])"
    by (intro partition_at_no_at) auto
  show ?thesis
    by (simp add: check_command_def sp pa)
qed

text \<open>
  Claim C2, as amended. For a Command filter with \<open>ignore_case\<close> set and a message whose
  text is a prefix character \<open>p\<close> (not whitespace), a command token \<open>cmd\<close> (no whitespace,
  no \<open>@\<close>) and then nothing or whitespace and further text: the filter accepts iff \<open>p\<close> is
  in the prefixes and the lower-cased \<open>cmd\<close> is in the stored commands; on acceptance the
  dict holds under \<open>command\<close> an object whose \<open>command\<close> is \<open>cmd\<close> as written in the
  message, whose \<open>prefix\<close> is \<open>p\<close> and whose \<open>mention\<close> is empty.
\<close>

theorem Command_check_accepts_iff:
  assumes "command_ignore_case f"
    and "\<not> isspace p" and "\<forall>c \<in> set cmd. \<not> isspace c \<and> c \<noteq> CHR ''@''"
    and "rest = [] \<or> isspace (hd rest)"
  shows "(str_in [p] (prefixes f) \<and> lower cmd \<in> set (commands f) \<longrightarrow>
            (\<exists>a. Command_check me f ev (m\<lparr>msg_text := p # cmd @ rest\<rparr>) =
               Inr (PyDict [(''command'', Command_arg
                 \<lparr>cmd_prefix = [p], cmd_command = cmd, cmd_mention = Some [], cmd_args = a\<rparr>)])))
       \<and> (\<not> (str_in [p] (prefixes f) \<and> lower cmd \<in> set (commands f)) \<longrightarrow>
            Command_check me f ev (m\<lparr>msg_text := p # cmd @ rest\<rparr>) = Inr (PyBool False))"
  using assms(1) check_command_token [OF assms(2,3,4)]
  by (simp add: Command_check_def)

theorem Command_check_accepts_iff_witness:
  "\<exists>a. Command_check (Inr ''bot'') (Command_init (Strs [''start'']) (Str ''/'') True False)
          (sample_event ''u1'' ''p1'' ''/START hello'') (sample_message ''/START hello'') =
        Inr (PyDict [(''command'', Command_arg
          \<lparr>cmd_prefix = ''/'', cmd_command = ''START'', cmd_mention = Some [], cmd_args = a\<rparr>)])"
proof -
  let ?f = "Command_init (Strs [''start'']) (Str ''/'') True False"
  have h1: "command_ignore_case ?f" by (simp add: Command_init_def)
  have h2: "\<not> isspace CHR ''/''" by (simp add: isspace_def)
  have h3: "\<forall>c \<in> set ''START''. \<not> isspace c \<and> c \<noteq> CHR ''@''" by (simp add: isspace_def)
  have h4: "'' hello'' = [] \<or> isspace (hd '' hello'')" by (simp add: isspace_def)
  have l: "lower ''START'' = ''start'' \<and> lower ''start'' = ''start''" by code_simp
  have acc: "str_in ''/'' (prefixes ?f) \<and> lower ''START'' \<in> set (commands ?f)"
    by (simp add: Command_init_def l)
  show ?thesis
    using Command_check_accepts_iff [OF h1 h2 h3 h4, of "Inr ''bot''"
        "sample_event ''u1'' ''p1'' ''/START hello''" "sample_message ''/START hello''"] acc
    by (simp add: sample_message_def)
qed

text \<open>
  The claim as stated fails on its own example: for \<open>commands=['start']\<close>, prefix \<open>/\<close> and
  the text \<open>/START hello\<close> the yielded object has \<open>command == 'START'\<close>, not \<open>'start'\<close>, and
  \<open>args\<close> is \<open>None\<close>, not \<open>'hello'\<close>.
\<close>

theorem Command_check_START_counterexample:
  "Command_check (Inr ''bot'') (Command_init (Strs [''start'']) (Str ''/'') True False)
     (sample_event ''u1'' ''p1'' ''/START hello'') (sample_message ''/START hello'') =
   Inr (PyDict [(''command'', Command_arg
     \<lparr>cmd_prefix = ''/'', cmd_command = ''START'', cmd_mention = Some [], cmd_args = None\<rparr>)])
   \<and> ''START'' \<noteq> ''start'' \<and> (None :: string option) \<noteq> Some ''hello''"
proof -
  have l: "lower ''START'' = ''start'' \<and> lower ''start'' = ''start''" by code_simp
  show ?thesis
    by (simp add: Command_check_def Command_init_def check_command_def sample_message_def
        split_def isspace_def l)
qed

text \<open>With a deep link configured, a passing command check leads to the call of
  \<open>get_args\<close>, whatever the kind of the deep link.\<close>

lemma CommandStart_deep_link_raises:
  assumes "deep_link f = Some d" and "Command_check me f ev m = Inr r" and "truthy_result r"
  shows "CommandStart_check me f ev m = Inl AttributeError"
  using assms by (simp add: CommandStart_check_def get_args_def split: deep_link_arg.splits)

text \<open>
  Claim C6 at a failing input: \<open>CommandStart(deep_link='ref')\<close> and
  \<open>CommandStart(deep_link=<pattern>)\<close> checked on the message \<open>/start ref\<close> raise
  \<open>AttributeError\<close> instead of accepting.
\<close>

theorem CommandStart_deep_link_attribute_error:
  "CommandStart_check (Inr ''bot'') (CommandStart_init (Some (Deep_str ''ref'')))
     (sample_event ''u1'' ''p1'' ''/start ref'') (sample_message ''/start ref'')
     = Inl AttributeError
   \<and> CommandStart_check (Inr ''bot'') (CommandStart_init (Some (Deep_pattern (Pattern Some))))
     (sample_event ''u1'' ''p1'' ''/start ref'') (sample_message ''/start ref'')
     = Inl AttributeError"
proof -
  have l: "lower ''start'' = ''start''" by code_simp
  show ?thesis
    by (simp add: CommandStart_check_def CommandStart_init_def Command_check_def
        check_command_def get_args_def sample_message_def split_def isspace_def l)
qed

section \<open>Properties of StateFilter\<close>

lemma current_state_update [simp]:
  "current_state (s\<lparr>ctx_state := c, reads := r\<rparr>) = current_state s"
  by (simp add: current_state_def)

lemma wildcard_states: "Some ''*'' \<in> set (states (StateFilter_init (Item (Plain (Some ''*'')))))"
  by (simp add: StateFilter_init_def)

lemma none_states: "states (StateFilter_init (Item (Plain None))) = [None]"
  by (simp add: StateFilter_init_def)

text \<open>
  Claim C4, as amended. A StateFilter built with \<open>state='*'\<close> accepts whatever the stored
  state is, makes no lookup, and yields \<open>{state: FSMContext}\<close> only. A StateFilter built
  with \<open>state=None\<close> decides on the state of the dispatch: when none is cached yet and the
  recipient id or the sender id of the event is non-empty, it makes one lookup for the
  (recipient, sender) key, caches what it finds, and accepts exactly when the storage
  holds no state for the key; when none is cached and both ids are empty, it rejects
  without a lookup and caches nothing; when a state is cached, it makes no lookup and
  accepts exactly when the cached state is \<open>None\<close>. On such a match it yields
  \<open>{state: FSMContext, raw_state: None}\<close>.
\<close>

theorem StateFilter_check_wildcard_and_none:
  "StateFilter_check get_state (StateFilter_init (Item (Plain (Some ''*'')))) event s =
     (PyDict [(''state'', State_arg (current_state s))], s)
   \<and> (ctx_state s = None \<and> (recipient_id (recipient event) \<noteq> [] \<or> sender_id (sender event) \<noteq> [])
        \<longrightarrow> StateFilter_check get_state (StateFilter_init (Item (Plain None))) event s =
             ((if get_state (Some (recipient_id (recipient event))) (Some (sender_id (sender event)))
                    = None
               then PyDict [(''state'', State_arg (current_state s)),
                            (''raw_state'', Raw_state_arg None)]
               else PyBool False),
              s\<lparr>ctx_state := Some (get_state (Some (recipient_id (recipient event)))
                                     (Some (sender_id (sender event)))),
                reads := reads s @ [(Some (recipient_id (recipient event)),
                                     Some (sender_id (sender event)))]\<rparr>))
   \<and> (ctx_state s = None \<and> recipient_id (recipient event) = [] \<and> sender_id (sender event) = []
        \<longrightarrow> StateFilter_check get_state (StateFilter_init (Item (Plain None))) event s =
             (PyBool False, s))
   \<and> (ctx_state s = Some cached
        \<longrightarrow> StateFilter_check get_state (StateFilter_init (Item (Plain None))) event s =
             ((if cached = None
               then PyDict [(''state'', State_arg (current_state s)),
                            (''raw_state'', Raw_state_arg None)]
               else PyBool False), s))"
proof (intro conjI impI)
  show "StateFilter_check get_state (StateFilter_init (Item (Plain (Some ''*'')))) event s =
     (PyDict [(''state'', State_arg (current_state s))], s)"
    using wildcard_states by (simp add: StateFilter_check_def)
next
  assume "ctx_state s = None \<and> (recipient_id (recipient event) \<noteq> [] \<or> sender_id (sender event) \<noteq> [])"
  then show "StateFilter_check get_state (StateFilter_init (Item (Plain None))) event s =
             ((if get_state (Some (recipient_id (recipient event))) (Some (sender_id (sender event)))
                    = None
               then PyDict [(''state'', State_arg (current_state s)),
                            (''raw_state'', Raw_state_arg None)]
               else PyBool False),
              s\<lparr>ctx_state := Some (get_state (Some (recipient_id (recipient event)))
                                     (Some (sender_id (sender event)))),
                reads := reads s @ [(Some (recipient_id (recipient event)),
                                     Some (sender_id (sender event)))]\<rparr>)"
    by (auto simp: StateFilter_check_def none_states get_target_def Let_def)
next
  assume "ctx_state s = None \<and> recipient_id (recipient event) = [] \<and> sender_id (sender event) = []"
  then show "StateFilter_check get_state (StateFilter_init (Item (Plain None))) event s =
             (PyBool False, s)"
    by (simp add: StateFilter_check_def none_states get_target_def)
next
  assume "ctx_state s = Some cached"
  then show "StateFilter_check get_state (StateFilter_init (Item (Plain None))) event s =
             ((if cached = None
               then PyDict [(''state'', State_arg (current_state s)),
                            (''raw_state'', Raw_state_arg None)]
               else PyBool False), s)"
    by (auto simp: StateFilter_check_def none_states)
qed

theorem StateFilter_check_wildcard_and_none_witness:
  "StateFilter_check (\<lambda>c u. None) (StateFilter_init (Item (Plain None)))
         (sample_event ''u1'' ''p1'' ''hi'') (sample_dispatch None) =
     (PyDict [(''state'', State_arg \<lparr>chat = Some ''p1'', user = Some ''u1''\<rparr>),
              (''raw_state'', Raw_state_arg None)],
      (sample_dispatch (Some None))\<lparr>reads := [(Some ''p1'', Some ''u1'')]\<rparr>)
   \<and> StateFilter_check (\<lambda>c u. Some ''form:name'') (StateFilter_init (Item (Plain None)))
         (sample_event ''u1'' ''p1'' ''hi'') (sample_dispatch None) =
     (PyBool False,
      (sample_dispatch (Some (Some ''form:name'')))\<lparr>reads := [(Some ''p1'', Some ''u1'')]\<rparr>)
   \<and> StateFilter_check (\<lambda>c u. None) (StateFilter_init (Item (Plain None)))
         (sample_event '''' '''' ''hi'') (sample_dispatch None) =
     (PyBool False, sample_dispatch None)
   \<and> StateFilter_check (\<lambda>c u. None) (StateFilter_init (Item (Plain None)))
         (sample_event ''u1'' ''p1'' ''hi'') (sample_dispatch (Some (Some ''form:name''))) =
     (PyBool False, sample_dispatch (Some (Some ''form:name'')))"
  using StateFilter_check_wildcard_and_none
      [of "\<lambda>c u. None" "sample_event ''u1'' ''p1'' ''hi''" "sample_dispatch None"]
    StateFilter_check_wildcard_and_none
      [of "\<lambda>c u. Some ''form:name''" "sample_event ''u1'' ''p1'' ''hi''" "sample_dispatch None"]
    StateFilter_check_wildcard_and_none
      [of "\<lambda>c u. None" "sample_event '''' '''' ''hi''" "sample_dispatch None"]
    StateFilter_check_wildcard_and_none
      [of "\<lambda>c u. None" "sample_event ''u1'' ''p1'' ''hi''"
          "sample_dispatch (Some (Some ''form:name''))" "Some ''form:name''"]
  by (simp add: sample_event_def sample_dispatch_def current_state_def)

text \<open>
  The claim as stated fails twice: the dict a wildcard filter yields has no \<open>raw_state\<close>,
  and a \<open>state=None\<close> filter rejects an event whose recipient and sender ids are empty
  although the storage holds no state for it.
\<close>

theorem StateFilter_check_counterexample:
  "fst (StateFilter_check (\<lambda>c u. Some ''form:name'') (StateFilter_init (Item (Plain (Some ''*''))))
         (sample_event ''u1'' ''p1'' ''hi'') (sample_dispatch None)) =
     PyDict [(''state'', State_arg \<lparr>chat = Some ''p1'', user = Some ''u1''\<rparr>)]
   \<and> fst (StateFilter_check (\<lambda>c u. None) (StateFilter_init (Item (Plain None)))
         (sample_event '''' '''' ''hi'') (sample_dispatch None)) = PyBool False"
  by (simp add: StateFilter_check_def StateFilter_init_def sample_dispatch_def sample_event_def
      current_state_def get_target_def)

text \<open>Once a state is cached no check reads the storage; a check that finds none cached
  either leaves the dispatch as it is or makes one read and caches its result.\<close>

lemma StateFilter_check_cached:
  assumes "ctx_state s \<noteq> None"
  shows "reads (snd (StateFilter_check g f ev s)) = reads s
       \<and> ctx_state (snd (StateFilter_check g f ev s)) \<noteq> None"
  using assms by (auto simp: StateFilter_check_def)

lemma StateFilter_check_miss:
  assumes "ctx_state s = None"
  shows "snd (StateFilter_check g f ev s) = s
       \<or> (length (reads (snd (StateFilter_check g f ev s))) = Suc (length (reads s))
          \<and> ctx_state (snd (StateFilter_check g f ev s)) \<noteq> None)"
  using assms by (auto simp: StateFilter_check_def Let_def split: prod.splits)

lemma check_in_turn_Cons_snd:
  "snd (check_in_turn g (f # fs) ev s) =
     snd (check_in_turn g fs ev (snd (StateFilter_check g f ev s)))"
  by (simp split: prod.splits)

lemma check_in_turn_cached:
  "ctx_state s \<noteq> None \<Longrightarrow> reads (snd (check_in_turn g fs ev s)) = reads s"
proof (induction fs arbitrary: s)
  case Nil
  show ?case by simp
next
  case (Cons f fs)
  from StateFilter_check_cached [OF Cons.prems, of g f ev]
  have "reads (snd (check_in_turn g fs ev (snd (StateFilter_check g f ev s)))) = reads s"
    using Cons.IH by auto
  then show ?case by (simp only: check_in_turn_Cons_snd)
qed

text \<open>
  Claim C5. However many StateFilter checks are made in turn for one event in one
  dispatch, wildcard or not, they add at most one \<open>get_state\<close> call to the storage's log.
  A filter set that stops at its first rejection makes a prefix of these checks, which is
  again such a sequence.
\<close>

theorem StateFilter_at_most_one_read:
  "length (reads (snd (check_in_turn get_state fs event s))) \<le> Suc (length (reads s))"
proof (induction fs arbitrary: s)
  case Nil
  show ?case by simp
next
  case (Cons f fs)
  let ?s' = "snd (StateFilter_check get_state f event s)"
  have step: "snd (check_in_turn get_state (f # fs) event s) = snd (check_in_turn get_state fs event ?s')"
    by (rule check_in_turn_Cons_snd)
  show ?case
  proof (cases "ctx_state s")
    case (Some c)
    then have "ctx_state s \<noteq> None" by simp
    from check_in_turn_cached [OF this, of get_state "f # fs" event] show ?thesis by simp
  next
    case None
    from StateFilter_check_miss [OF None, of get_state f event]
    show ?thesis
    proof
      assume "?s' = s"
      with Cons.IH [of s] step show ?thesis by simp
    next
      assume a: "length (reads ?s') = Suc (length (reads s)) \<and> ctx_state ?s' \<noteq> None"
      then have "reads (snd (check_in_turn get_state fs event ?s')) = reads ?s'"
        by (intro check_in_turn_cached) simp
      with a step show ?thesis by simp
    qed
  qed
qed

text \<open>Three filters, the first of which rejects: one read, made by the first.\<close>

lemma three_filters_one_read:
  "reads (snd (check_in_turn (\<lambda>c u. Some ''a'')
     [StateFilter_init (Item (Plain None)), StateFilter_init (Item (Plain (Some ''a''))),
      StateFilter_init (Item (Plain (Some ''b'')))]
     (sample_event ''u1'' ''p1'' ''hi'') (sample_dispatch None))) = [(Some ''p1'', Some ''u1'')]"
  by (simp add: StateFilter_check_def StateFilter_init_def sample_dispatch_def sample_event_def get_target_def)

section \<open>Properties of detached handlers\<close>

text \<open>Awaiting wrapped handlers only creates their tasks; every wrapper call returns.\<close>

lemma run_all_wrapper:
  "run_all (map (\<lambda>ev. wrapper func (ctx_of ev) (args_of ev)) evs) l =
     (map (\<lambda>ev. Inr ()) evs,
      l\<lparr>handler_tasks := handler_tasks l @
           map (\<lambda>ev. \<lparr>task_result = func (args_of ev), task_context = ctx_of ev\<rparr>) evs\<rparr>)"
proof (induction evs arbitrary: l)
  case Nil
  show ?case by simp
next
  case (Cons ev evs)
  show ?case by (simp add: Cons.IH) (simp add: wrapper_def)
qed

lemma first_error_all_returned:
  "first_error (map (\<lambda>ev. Inr ()) evs) = Inr (map (\<lambda>ev. ()) evs)"
  by (induction evs) simp_all

text \<open>With detached handlers \<open>process_entries\<close> completes successfully over entries that
  each have a first slot, whatever the handlers do: it creates one task per dispatched
  event.\<close>

lemma detached_process_entries_completes:
  assumes "\<forall>entry \<in> set entries. messaging entry \<noteq> []"
  shows "process_entries (process_event (\<lambda>ev m. wrapper func (ctx_of ev) (ev, m))) entries l =
           (Inr (map (\<lambda>ev. ())
              (concat (map (\<lambda>entry. case messaging entry of
                              Some (Message_Event ev) # _ \<Rightarrow> [ev] | _ \<Rightarrow> []) entries))),
            l\<lparr>handler_tasks := handler_tasks l @
                 map (\<lambda>ev. \<lparr>task_result = func (ev, message ev), task_context = ctx_of ev\<rparr>)
                   (concat (map (\<lambda>entry. case messaging entry of
                              Some (Message_Event ev) # _ \<Rightarrow> [ev] | _ \<Rightarrow> []) entries))\<rparr>)"
proof -
  have notify: "process_event (\<lambda>ev m. wrapper func (ctx_of ev) (ev, m)) =
                  (\<lambda>ev. wrapper func (ctx_of ev) (ev, message ev))"
    by (simp add: process_event_def fun_eq_iff)
  show ?thesis
    unfolding notify
    using entries_loop_first_slots [OF assms, of "[]"]
    by (simp add: process_entries_def gather_def run_all_wrapper first_error_all_returned)
qed

text \<open>The done callbacks add one error notification for each task that raised an
  \<open>Exception\<close> and has a context, with the value the context holds under \<open>event_object\<close>;
  a task without a context adds none.\<close>

lemma run_callbacks_error_tasks:
  "error_tasks (run_callbacks self tasks l) =
     error_tasks l @
     concat (map (\<lambda>task. case task_result task of
                     Inl e \<Rightarrow>
                       if is_Exception e
                       then (case task_context task of
                               None \<Rightarrow> []
                             | Some d \<Rightarrow> [Errors_notify self (dict_get d EVENT_OBJECT) e])
                       else []
                   | Inr r \<Rightarrow> []) tasks)"
proof (induction tasks arbitrary: l)
  case Nil
  show ?case by simp
next
  case (Cons task tasks)
  show ?case
    by (simp add: Cons.IH) (simp add: process_response_def split: sum.splits option.splits)
qed

text \<open>
  Claim C1 at a failing input: a detached handler raises \<open>Exception('boom')\<close> on a message
  event dispatched by \<open>process_entries\<close>. The call completes and the task is created. On
  a loop whose tasks have no \<open>context\<close> attribute the done callback raises
  \<open>AttributeError\<close> and no error notification is made; on a loop whose tasks carry the
  context set by the webhook handler the one notification made carries \<open>None\<close>, not the
  event.
\<close>

theorem detached_handler_event_not_forwarded:
  "process_entries
     (process_event (\<lambda>ev m. wrapper (\<lambda>args. Inl (Exception ''boom'')) None (ev, m)))
     [sample_entry [Some (Message_Event (sample_event ''u1'' ''p1'' ''hi''))]] empty_loop
   = (Inr [()],
      \<lparr>handler_tasks = [\<lparr>task_result = Inl (Exception ''boom''), task_context = None\<rparr>],
       error_tasks = []\<rparr>)
   \<and> process_response ''dp''
       \<lparr>task_result = Inl (Exception ''boom'') :: error + unit, task_context = None\<rparr> empty_loop
     = (Inl AttributeError, empty_loop)
   \<and> error_tasks (run_callbacks ''dp''
       (handler_tasks (snd (process_entries
          (process_event (\<lambda>ev m. wrapper (\<lambda>args. Inl (Exception ''boom'') :: error + unit)
                             None (ev, m)))
          [sample_entry [Some (Message_Event (sample_event ''u1'' ''p1'' ''hi''))]] empty_loop)))
       empty_loop)
     = []
   \<and> error_tasks (run_callbacks ''dp''
       (handler_tasks (snd (process_entries
          (process_event (\<lambda>ev m. wrapper (\<lambda>args. Inl (Exception ''boom'') :: error + unit)
                             (Some webhook_context) (ev, m)))
          [sample_entry [Some (Message_Event (sample_event ''u1'' ''p1'' ''hi''))]] empty_loop)))
       empty_loop)
     = [Errors_notify ''dp'' No_value (Exception ''boom'')]"
  by (simp add: process_entries_def process_event_def gather_def wrapper_def sample_entry_def
      empty_loop_def process_response_def dict_get_def webhook_context_def EVENT_OBJECT_def)

end
